theory Spec2Isabelle
  imports Main "HOL-Library.Multiset" "HOL-Library.List_Lexorder" "HOL-Library.Product_Lexorder"
begin

section \<open>Text\<close>

text \<open>
  A Python \<open>str\<close> is a sequence of Unicode code points, so text is a list of
  natural numbers. Lists are compared lexicographically and code points by their
  number, which is the order Python and pandas sort strings by. \<open>u\<close> reads an
  Isabelle literal (whose characters are the code points below 256).
\<close>

type_synonym pystr = "nat list"

definition u :: "string \<Rightarrow> pystr" where
  "u s = map of_char s"

text \<open>
  \<open>str.upper()\<close> maps every code point through Unicode's full upper-case mapping.
  The rows of that table are written out for Basic Latin and the Latin-1 Supplement
  (U+0000 to U+00FF): the letters a to z, the micro sign (to U+039C), sharp s (to
  \<open>SS\<close>), the accented letters U+00E0 to U+00FE without the division sign, and
  y with diaeresis (to U+0178). Code points from U+0100 on are passed through
  unchanged, which is exact for every caseless character and for upper-case letters
  only.
\<close>

definition toupper :: "nat \<Rightarrow> pystr" where
  "toupper c =
     (if 97 \<le> c \<and> c \<le> 122 then [c - 32]
      else if c = 181 then [924]
      else if c = 223 then [83, 83]
      else if 224 \<le> c \<and> c \<le> 254 \<and> c \<noteq> 247 then [c - 32]
      else if c = 255 then [376]
      else [c])"

definition str_upper :: "pystr \<Rightarrow> pystr" where
  "str_upper s = concat (map toupper s)"

text \<open>
  \<open>unidecode\<close> replaces every code point by an ASCII string taken from a table
  and leaves ASCII as it is. The rows written out are those of the Latin-1 letters
  (U+00C0 to U+00FF), so the model is exact on text made of ASCII and these
  letters. For every other code point from U+0080 on it returns the empty string,
  which is what the library does only where its table has no row.
\<close>

definition unidecode_row :: "nat \<Rightarrow> pystr" where
  "unidecode_row c =
     (if c < 128 then [c]
      else if 192 \<le> c \<and> c \<le> 197 then u ''A''
      else if c = 198 then u ''AE''
      else if c = 199 then u ''C''
      else if 200 \<le> c \<and> c \<le> 203 then u ''E''
      else if 204 \<le> c \<and> c \<le> 207 then u ''I''
      else if c = 208 then u ''D''
      else if c = 209 then u ''N''
      else if 210 \<le> c \<and> c \<le> 214 then u ''O''
      else if c = 215 then u ''x''
      else if c = 216 then u ''O''
      else if 217 \<le> c \<and> c \<le> 220 then u ''U''
      else if c = 221 then u ''Y''
      else if c = 222 then u ''Th''
      else if c = 223 then u ''ss''
      else if 224 \<le> c \<and> c \<le> 229 then u ''a''
      else if c = 230 then u ''ae''
      else if c = 231 then u ''c''
      else if 232 \<le> c \<and> c \<le> 235 then u ''e''
      else if 236 \<le> c \<and> c \<le> 239 then u ''i''
      else if c = 240 then u ''d''
      else if c = 241 then u ''n''
      else if 242 \<le> c \<and> c \<le> 246 then u ''o''
      else if c = 247 then u ''/''
      else if c = 248 then u ''o''
      else if 249 \<le> c \<and> c \<le> 252 then u ''u''
      else if c = 253 then u ''y''
      else if c = 254 then u ''th''
      else if c = 255 then u ''y''
      else [])"

definition unidecode :: "pystr \<Rightarrow> pystr" where
  "unidecode s = concat (map unidecode_row s)"

text \<open>\<^verbatim>\<open>def remove_accents_and_uppercase(str_val): return unidecode(str_val).upper()\<close>\<close>

definition remove_accents_and_uppercase :: "pystr \<Rightarrow> pystr" where
  "remove_accents_and_uppercase str_val = str_upper (unidecode str_val)"

section \<open>The filter: \<open>Series.str.contains\<close>\<close>

text \<open>
  \<open>str.contains(pat, na=False)\<close> runs \<open>re.search\<close> with the pattern on every
  cell that holds text and answers \<open>na\<close> for a missing cell. The pattern of the
  program uses two constructs of the regular-expression syntax only: literal
  characters (none of its letters, the apostrophe, the space and the hyphen outside
  a bracket is special) and one alternation bar.
\<close>

datatype regex = Lit pystr | Alt regex regex

fun match_at :: "regex \<Rightarrow> pystr \<Rightarrow> bool" where
  "match_at (Lit p) s = (take (length p) s = p)"
| "match_at (Alt a b) s = (match_at a s \<or> match_at b s)"

fun re_search :: "regex \<Rightarrow> pystr \<Rightarrow> bool" where
  "re_search r [] = match_at r []"
| "re_search r (c # cs) = (match_at r (c # cs) \<or> re_search r cs)"

definition str_contains :: "regex \<Rightarrow> bool \<Rightarrow> pystr option \<Rightarrow> bool" where
  "str_contains pat na cell = (case cell of None \<Rightarrow> na | Some s \<Rightarrow> re_search pat s)"

definition non_conforme_hyphen :: pystr where
  "non_conforme_hyphen = u ''Eau d'alimentation non-conforme''"

definition non_conforme_space :: pystr where
  "non_conforme_space = u ''Eau d'alimentation non conforme''"

definition pattern :: regex where
  "pattern = Alt (Lit non_conforme_hyphen) (Lit non_conforme_space)"

section \<open>Raw sample rows and the transformer\<close>

text \<open>
  A raw table is what \<open>read_csv\<close> returns for one file, with its two text columns
  read as text: every cell of a row may be missing (an empty field). The date cell
  is given by what \<open>pd.to_datetime\<close> makes of it: a missing cell becomes \<open>NaT\<close>,
  a date becomes a timestamp (year, month, day), and any other text makes the call
  raise (a subclass of \<open>ValueError\<close>).
\<close>

datatype date_cell = NaT | Timestamp int int int | Unparseable

record raw_row =
  dateprel :: date_cell
  nomcommuneprinc :: "pystr option"
  conclusionprel :: "pystr option"

datatype error = ValueError | KeyError pystr

text \<open>An aggregated count row: the columns year, month, nomcommuneprinc, count.\<close>

type_synonym count_row = "int \<times> int \<times> pystr \<times> int"

definition dt_year :: "date_cell \<Rightarrow> int option" where
  "dt_year d = (case d of Timestamp y m dd \<Rightarrow> Some y | _ \<Rightarrow> None)"

definition dt_month :: "date_cell \<Rightarrow> int option" where
  "dt_month d = (case d of Timestamp y m dd \<Rightarrow> Some m | _ \<Rightarrow> None)"

text \<open>Line 24: the mask that selects the rows of \<open>df_filtered\<close>.\<close>

definition keeps :: "raw_row \<Rightarrow> bool" where
  "keeps r = str_contains pattern False (conclusionprel r)"

text \<open>
  The group key of a row, after lines 21 to 23. \<open>groupby\<close> has \<open>dropna=True\<close> by
  default: a row with a missing value in one of the key columns belongs to no group.
\<close>

definition group_key :: "raw_row \<Rightarrow> (int \<times> int \<times> pystr) option" where
  "group_key r =
     (case (dt_year (dateprel r), dt_month (dateprel r), map_option str_upper (nomcommuneprinc r)) of
        (Some y, Some m, Some c) \<Rightarrow> Some (y, m, c)
      | _ \<Rightarrow> None)"

text \<open>
  \<open>groupby(keys).size()\<close>: one entry per distinct key, in increasing key order
  (\<open>sort=True\<close>), with the number of rows that have the key.
\<close>

definition groupby_size :: "'k::linorder list \<Rightarrow> ('k \<times> int) list" where
  "groupby_size ks = map (\<lambda>k. (k, int (count_list ks k))) (sort (remdups ks))"

definition process_dataframe :: "raw_row list \<Rightarrow> error + count_row list" where
  "process_dataframe df =
     (if list_ex (\<lambda>r. dateprel r = Unparseable) df then Inl ValueError
      else
        let df_filtered = filter keeps df
        in Inr (map (\<lambda>((y, m, c), n). (y, m, c, n))
                  (groupby_size (List.map_filter group_key df_filtered))))"


text \<open>The (year, month, commune) tuple of a count row.\<close>

definition row_key :: "count_row \<Rightarrow> int \<times> int \<times> pystr" where
  "row_key g = (case g of (y, m, c, n) \<Rightarrow> (y, m, c))"

section \<open>The loader\<close>

text \<open>
  \<open>pd.DataFrame()\<close> is a table without rows and without columns; every table
  the transformer returns has the four columns of a count row. \<open>pd.concat\<close> of
  the two takes its columns from the second.
\<close>

datatype frame = NoColumns | Frame "count_row list"

definition concat_frames :: "frame \<Rightarrow> count_row list \<Rightarrow> frame" where
  "concat_frames df_combined df_yearly =
     (case df_combined of
        NoColumns \<Rightarrow> Frame df_yearly
      | Frame rows \<Rightarrow> Frame (rows @ df_yearly))"

text \<open>
  The inner loop of \<open>load_and_process_data\<close>, over the files that \<open>glob\<close> returns
  for one year; each file is given by the table \<open>read_csv\<close> reads from it.
\<close>

fun load_files :: "frame \<Rightarrow> raw_row list list \<Rightarrow> error + frame" where
  "load_files df_combined [] = Inr df_combined"
| "load_files df_combined (df # files) =
     (case process_dataframe df of
        Inl e \<Rightarrow> Inl e
      | Inr df_yearly \<Rightarrow> load_files (concat_frames df_combined df_yearly) files)"

text \<open>The outer loop, over the years; \<open>dataset year\<close> are the files of that year.\<close>

fun load_years :: "(int \<Rightarrow> raw_row list list) \<Rightarrow> frame \<Rightarrow> int list \<Rightarrow> error + frame" where
  "load_years dataset df_combined [] = Inr df_combined"
| "load_years dataset df_combined (year # years) =
     (case load_files df_combined (dataset year) of
        Inl e \<Rightarrow> Inl e
      | Inr df_combined' \<Rightarrow> load_years dataset df_combined' years)"

definition load_and_process_data :: "(int \<Rightarrow> raw_row list list) \<Rightarrow> int list \<Rightarrow> error + frame" where
  "load_and_process_data dataset year_range = load_years dataset NoColumns year_range"

section \<open>The heat map\<close>

text \<open>
  \<open>groupby(keys).agg({'count': 'sum'}).reset_index()\<close>: one row per distinct key,
  in increasing key order, with the sum of the counts of the rows that have the key.
\<close>

definition groupby_sum :: "('k::linorder \<times> int) list \<Rightarrow> ('k \<times> int) list" where
  "groupby_sum rows =
     map (\<lambda>k. (k, sum_list (map snd (filter (\<lambda>r. fst r = k) rows))))
       (sort (remdups (map fst rows)))"

text \<open>
  \<open>pivot(index="month", columns="year", values="count")\<close>: the row labels are the
  months that occur and the column labels the years that occur, both in increasing
  order; a cell holds the count of its (year, month) row, and no value (NaN) when
  there is no such row. \<open>pivot\<close> raises when two rows have the same labels.
\<close>

record pivot =
  index :: "int list"
  columns :: "int list"
  cells :: "int option list list"

definition pivot_month_year :: "((int \<times> int) \<times> int) list \<Rightarrow> error + pivot" where
  "pivot_month_year heatmap_df =
     (if \<not> distinct (map fst heatmap_df) then Inl ValueError
      else
        let months = sort (remdups (map (\<lambda>((y, m), n). m) heatmap_df));
            years = sort (remdups (map (\<lambda>((y, m), n). y) heatmap_df))
        in Inr \<lparr>index = months, columns = years,
                cells = map (\<lambda>m. map (\<lambda>y. map_of heatmap_df (y, m)) years) months\<rparr>)"

text \<open>The tick labels of line 47, with the positions \<open>range(0, 12)\<close> they are put at.\<close>

definition month_labels :: "pystr list" where
  "month_labels =
     [u ''Jan'', u ''F'' @ [233] @ u ''v'', u ''Mar'', u ''Avr'', u ''Mai'', u ''Juin'',
      u ''Juil'', u ''Ao'' @ [251] @ u ''t'', u ''Sep'', u ''Oct'', u ''Nov'',
      u ''D'' @ [233] @ u ''c'']"

record heatmap =
  heatmap_data :: pivot
  yticks :: "(nat \<times> pystr) list"

definition create_heatmap :: "frame \<Rightarrow> error + heatmap" where
  "create_heatmap df =
     (case df of
        NoColumns \<Rightarrow> Inl (KeyError (u ''year''))
      | Frame rows \<Rightarrow>
          let heatmap_df = groupby_sum (map (\<lambda>(y, m, c, n). ((y, m), n)) rows)
          in (case pivot_month_year heatmap_df of
                Inl e \<Rightarrow> Inl e
              | Inr pv \<Rightarrow> Inr \<lparr>heatmap_data = pv, yticks = zip [0..<12] month_labels\<rparr>))"

text \<open>
  Reading the grid at the labels (month, year): there is no such cell when one of
  the labels is not in the grid, the cell is blank when it holds NaN, and it holds
  a value otherwise.
\<close>

datatype cell = NoCell | Blank | Val int



section \<open>The bar chart\<close>

text \<open>
  \<open>sort_values('count', ascending=False)\<close> sorts with the default
  \<open>kind='quicksort'\<close>: pandas reverses the column, asks numpy for the argsort of
  the reversed column, maps the positions back and reverses the result. numpy's
  argsort is not part of this program and is a parameter of the model. What numpy
  promises of it, for every kind, is \<open>argsort_ok\<close>: the result is a permutation of
  the positions that puts the values in non-decreasing order.
\<close>

definition argsort_ok :: "(int list \<Rightarrow> nat list) \<Rightarrow> int list \<Rightarrow> bool" where
  "argsort_ok argsort xs \<longleftrightarrow>
     mset (argsort xs) = mset [0..<length xs] \<and> sorted (map (\<lambda>i. xs ! i) (argsort xs))"

definition nargsort_desc :: "(int list \<Rightarrow> nat list) \<Rightarrow> int list \<Rightarrow> nat list" where
  "nargsort_desc argsort items =
     (let idx = [0..<length items]
      in rev (map (\<lambda>i. rev idx ! i) (argsort (rev items))))"

definition sort_values_desc :: "(int list \<Rightarrow> nat list) \<Rightarrow> ('k \<times> int) list \<Rightarrow> ('k \<times> int) list" where
  "sort_values_desc argsort rows = map (\<lambda>i. rows ! i) (nargsort_desc argsort (map snd rows))"

definition create_barplot :: "(int list \<Rightarrow> nat list) \<Rightarrow> frame \<Rightarrow> error + (pystr \<times> int) list" where
  "create_barplot argsort df =
     (case df of
        NoColumns \<Rightarrow> Inl (KeyError (u ''nomcommuneprinc''))
      | Frame rows \<Rightarrow>
          Inr (sort_values_desc argsort (groupby_sum (map (\<lambda>(y, m, c, n). (c, n)) rows))))"

text \<open>
  Two argsorts that meet \<open>argsort_ok\<close>: insertion from the front, which keeps equal
  values in the order of their positions, and insertion from the back, which does
  not.
\<close>

definition argsort_front :: "int list \<Rightarrow> nat list" where
  "argsort_front xs = sort_key (\<lambda>i. xs ! i) [0..<length xs]"

definition argsort_back :: "int list \<Rightarrow> nat list" where
  "argsort_back xs = sort_key (\<lambda>i. xs ! i) (rev [0..<length xs])"


section \<open>The map\<close>

text \<open>
  A boundary polygon of the GeoJSON file, and a row of the joined table, which has
  the columns of both sides; the key column and the count of the right side are
  missing where no right row matches.
\<close>

record 'g boundary =
  nom :: pystr
  geometry :: 'g

record ('g, 'c) merged_row = "'g boundary" +
  nomcommuneprinc_r :: "pystr option"
  count :: 'c

text \<open>
  \<open>gdf.merge(df, left_on='nom', right_on='nomcommuneprinc', how='left')\<close>: the
  left rows in their order, each once per right row with the same key, and once
  with missing values when there is none.
\<close>

definition merge_row :: "(pystr \<times> int) list \<Rightarrow> 'g boundary \<Rightarrow> ('g, int option) merged_row list" where
  "merge_row df g =
     (case filter (\<lambda>r. fst r = nom g) df of
        [] \<Rightarrow> [\<lparr>nom = nom g, geometry = geometry g, nomcommuneprinc_r = None, count = None\<rparr>]
      | ms \<Rightarrow> map (\<lambda>r. \<lparr>nom = nom g, geometry = geometry g,
                        nomcommuneprinc_r = Some (fst r), count = Some (snd r)\<rparr>) ms)"

definition merge_left :: "'g boundary list \<Rightarrow> (pystr \<times> int) list \<Rightarrow> ('g, int option) merged_row list" where
  "merge_left gdf df = concat (map (merge_row df) gdf)"

definition fillna :: "'c \<Rightarrow> ('g, 'c option) merged_row \<Rightarrow> ('g, 'c) merged_row" where
  "fillna v e =
     \<lparr>nom = nom e, geometry = geometry e, nomcommuneprinc_r = nomcommuneprinc_r e,
      count = (case count e of None \<Rightarrow> v | Some c \<Rightarrow> c)\<rparr>"

text \<open>
  Lines 72 and 73 of \<open>create_choropleth\<close>: the joined table that is drawn.
  \<open>merged_df['count'].fillna(0, inplace=True)\<close> fills the column of the table
  itself, as it does in the pandas versions without copy-on-write that the program
  was written for. The bound of the colour scale (a floating-point quantile) and the
  drawing are the libraries' and are not part of the model.
\<close>

definition create_choropleth :: "(pystr \<times> int) list \<Rightarrow> 'g boundary list \<Rightarrow> ('g, int) merged_row list" where
  "create_choropleth df gdf = map (fillna 0) (merge_left gdf df)"

section \<open>The program\<close>

record 'g artifacts =
  heatmap_png :: heatmap
  barplot_png :: "(pystr \<times> int) list"
  index_html :: "('g, int) merged_row list"

text \<open>Python's \<open>range(a, b)\<close>.\<close>

definition py_range :: "int \<Rightarrow> int \<Rightarrow> int list" where
  "py_range a b = [a..b - 1]"

definition main ::
  "(int \<Rightarrow> raw_row list list) \<Rightarrow> (int list \<Rightarrow> nat list) \<Rightarrow> 'g boundary list \<Rightarrow> error + 'g artifacts" where
  "main dataset argsort communes_corse =
     (case load_and_process_data dataset (py_range 2016 2024) of
        Inl e \<Rightarrow> Inl e
      | Inr df_plv_combined \<Rightarrow>
          (case create_heatmap df_plv_combined of
             Inl e \<Rightarrow> Inl e
           | Inr hm \<Rightarrow>
               (case create_barplot argsort df_plv_combined of
                  Inl e \<Rightarrow> Inl e
                | Inr commune_counts \<Rightarrow>
                    let gdf = map (\<lambda>g. g\<lparr>nom := remove_accents_and_uppercase (nom g)\<rparr>) communes_corse
                    in Inr \<lparr>heatmap_png = hm, barplot_png = commune_counts,
                            index_html = create_choropleth commune_counts gdf\<rparr>)))"

section \<open>Evaluation\<close>

lemmas text_defs = u_def str_upper_def toupper_def unidecode_def unidecode_row_def
  remove_accents_and_uppercase_def non_conforme_hyphen_def non_conforme_space_def

lemmas transformer_defs = process_dataframe_def keeps_def str_contains_def pattern_def
  group_key_def dt_year_def dt_month_def groupby_size_def List.map_filter_def

section \<open>The filter and the groups\<close>








lemma map_fst_groupby_size: "map fst (groupby_size ks) = sort (remdups ks)"
  by (simp add: groupby_size_def comp_def)

lemma distinct_groupby_size: "distinct (map fst (groupby_size ks))"
  by (simp add: map_fst_groupby_size)








lemma process_dataframe_distinct:
  assumes "process_dataframe df = Inr out"
  shows "distinct (map row_key out)"
proof -
  let ?ks = "List.map_filter group_key (filter keeps df)"
  have out: "out = map (\<lambda>((y, m, c), n). (y, m, c, n)) (groupby_size ?ks)"
    using assms by (auto simp: process_dataframe_def split: if_splits)
  have "map row_key out = map fst (groupby_size ?ks)"
    unfolding out by (auto simp: comp_def row_key_def split: prod.splits)
  then show ?thesis by (simp add: distinct_groupby_size)
qed








section \<open>The loader's result\<close>

lemma foldl_concat_frames_Frame:
  "foldl concat_frames (Frame rows) outs = Frame (rows @ concat outs)"
  by (induction outs arbitrary: rows) (simp_all add: concat_frames_def)

lemma foldl_concat_frames_NoColumns:
  "foldl concat_frames NoColumns outs = (if outs = [] then NoColumns else Frame (concat outs))"
  by (cases outs) (simp_all add: concat_frames_def foldl_concat_frames_Frame)

lemma load_files_outs:
  "load_files df_combined files = Inr fr \<Longrightarrow>
   \<exists>outs. map process_dataframe files = map Inr outs \<and> fr = foldl concat_frames df_combined outs"
proof (induction files arbitrary: df_combined)
  case Nil
  then show ?case by simp
next
  case (Cons df files)
  from Cons.prems obtain out where out: "process_dataframe df = Inr out"
    and rest: "load_files (concat_frames df_combined out) files = Inr fr"
    by (auto split: sum.splits)
  from Cons.IH [OF rest] obtain outs where
    "map process_dataframe files = map Inr outs" "fr = foldl concat_frames (concat_frames df_combined out) outs"
    by blast
  then have "map process_dataframe (df # files) = map Inr (out # outs) \<and>
             fr = foldl concat_frames df_combined (out # outs)"
    using out by simp
  then show ?case by blast
qed

lemma load_years_outs:
  "load_years dataset df_combined years = Inr fr \<Longrightarrow>
   \<exists>outs. map process_dataframe (concat (map dataset years)) = map Inr outs \<and>
          fr = foldl concat_frames df_combined outs"
proof (induction years arbitrary: df_combined)
  case Nil
  then show ?case by simp
next
  case (Cons year years)
  from Cons.prems obtain fr1 where one: "load_files df_combined (dataset year) = Inr fr1"
    and rest: "load_years dataset fr1 years = Inr fr"
    by (auto split: sum.splits)
  from load_files_outs [OF one] obtain outs1 where
    o1: "map process_dataframe (dataset year) = map Inr outs1" "fr1 = foldl concat_frames df_combined outs1"
    by blast
  from Cons.IH [OF rest] obtain outs2 where
    o2: "map process_dataframe (concat (map dataset years)) = map Inr outs2"
      "fr = foldl concat_frames fr1 outs2"
    by blast
  have "map process_dataframe (concat (map dataset (year # years))) = map Inr (outs1 @ outs2) \<and>
        fr = foldl concat_frames df_combined (outs1 @ outs2)"
    using o1 o2 by simp
  then show ?case by blast
qed

lemma distinct_key_count:
  "distinct (map f xs) \<Longrightarrow> length (filter (\<lambda>x. f x = k) xs) \<le> 1"
proof (induction xs)
  case Nil
  then show ?case by simp
next
  case (Cons x xs)
  show ?case
  proof (cases "f x = k")
    case True
    with Cons.prems have "k \<notin> f ` set xs" by simp
    then have "\<forall>x'\<in>set xs. f x' \<noteq> k" by blast
    then have "filter (\<lambda>x. f x = k) xs = []" by (simp add: filter_empty_conv)
    with True show ?thesis by simp
  next
    case False
    with Cons show ?thesis by simp
  qed
qed

lemma concat_key_count:
  "(\<forall>out\<in>set outs. distinct (map f out)) \<Longrightarrow>
   length (filter (\<lambda>x. f x = k) (concat outs)) \<le> length outs"
proof (induction outs)
  case Nil
  then show ?case by simp
next
  case (Cons out outs)
  have "length (filter (\<lambda>x. f x = k) out) \<le> 1"
    using Cons.prems distinct_key_count [of f out k] by simp
  moreover have "length (filter (\<lambda>x. f x = k) (concat outs)) \<le> length outs"
    using Cons by simp
  ultimately show ?case by simp
qed

text \<open>
  Claim C2, as the code has it. The loader hands every file to the transformer
  on its own and concatenates the results: when it returns, every file has been
  transformed without error, the combined table holds the per-file tables one
  after the other in the order of the years and of the files (and has no columns
  when there was no file), every per-file table has at most one row per
  (year, month, commune) tuple, and so the combined table has at most one row
  per tuple and input file.
\<close>

theorem loader_concatenates_files:
  assumes "load_and_process_data dataset year_range = Inr df_combined"
  shows "\<exists>outs. map process_dataframe (concat (map dataset year_range)) = map Inr outs \<and>
           df_combined = (if outs = [] then NoColumns else Frame (concat outs)) \<and>
           (\<forall>out\<in>set outs. distinct (map row_key out)) \<and>
           (\<forall>k. length (filter (\<lambda>g. row_key g = k) (concat outs)) \<le> length outs)"
proof -
  from assms load_years_outs obtain outs where
    outs: "map process_dataframe (concat (map dataset year_range)) = map Inr outs"
    and fr: "df_combined = foldl concat_frames NoColumns outs"
    unfolding load_and_process_data_def by blast
  have d: "distinct (map row_key out)" if "out \<in> set outs" for out
  proof -
    from that have "Inr out \<in> set (map process_dataframe (concat (map dataset year_range)))"
      unfolding outs by simp
    then obtain df where "process_dataframe df = Inr out" by auto
    then show ?thesis by (rule process_dataframe_distinct)
  qed
  have "length (filter (\<lambda>g. row_key g = k) (concat outs)) \<le> length outs" for k
    using d by (intro concat_key_count) blast
  with outs fr d show ?thesis
    by (intro exI [of _ outs]) (simp add: foldl_concat_frames_NoColumns)
qed

text \<open>
  Claim C2 as stated fails: two files of the year 2020 that each hold a matching
  sample of Ajaccio in March give a combined table with two rows for the tuple
  (2020, 3, AJACCIO).
\<close>

theorem two_files_one_year_counterexample:
  "load_and_process_data
     (\<lambda>year. if year = 2020
        then [[\<lparr>dateprel = Timestamp 2020 3 2, nomcommuneprinc = Some (u ''Ajaccio''),
                conclusionprel = Some non_conforme_hyphen\<rparr>],
              [\<lparr>dateprel = Timestamp 2020 3 9, nomcommuneprinc = Some (u ''Ajaccio''),
                conclusionprel = Some non_conforme_space\<rparr>]]
        else [])
     (py_range 2016 2024)
   = Inr (Frame [(2020, 3, u ''AJACCIO'', 1), (2020, 3, u ''AJACCIO'', 1)]) \<and>
   \<not> distinct (map row_key [(2020, 3, u ''AJACCIO'', 1), (2020, 3, u ''AJACCIO'', 1)])"
  by (simp add: load_and_process_data_def py_range_def concat_frames_def row_key_def
      transformer_defs text_defs)

text \<open>
  Claim C2 at a data set with one file, in the year 2020: the loader returns the
  table of that file.
\<close>

theorem loader_concatenates_files_witness:
  "load_and_process_data
     (\<lambda>year. if year = 2020
        then [[\<lparr>dateprel = Timestamp 2020 3 2, nomcommuneprinc = Some (u ''Ajaccio''),
                conclusionprel = Some non_conforme_hyphen\<rparr>]]
        else [])
     (py_range 2019 2021)
   = Inr (Frame [(2020, 3, u ''AJACCIO'', 1)]) \<and>
   (\<exists>outs. Frame [(2020, 3, u ''AJACCIO'', 1)] = (if outs = [] then NoColumns else Frame (concat outs)) \<and>
      length (filter (\<lambda>g. row_key g = (2020, 3, u ''AJACCIO'')) (concat outs)) \<le> length outs)"
proof -
  let ?d = "\<lambda>year::int. if year = 2020
        then [[\<lparr>dateprel = Timestamp 2020 3 2, nomcommuneprinc = Some (u ''Ajaccio''),
                conclusionprel = Some non_conforme_hyphen\<rparr>]]
        else []"
  have l: "load_and_process_data ?d (py_range 2019 2021) = Inr (Frame [(2020, 3, u ''AJACCIO'', 1)])"
    by (simp add: load_and_process_data_def py_range_def concat_frames_def transformer_defs text_defs)
  from loader_concatenates_files [OF l] l show ?thesis by blast
qed

lemma load_years_no_files:
  "(\<forall>year\<in>set years. dataset year = []) \<Longrightarrow> load_years dataset df_combined years = Inr df_combined"
  by (induction years) simp_all

text \<open>
  Claim C10. When no file matches for any year of \<open>range(2016, 2024)\<close>, the loader
  returns the table without rows and columns, the heat map stage raises a
  \<open>KeyError\<close> for the column \<open>year\<close> on it, and the whole run ends with that
  error: no artifact is produced.
\<close>

theorem empty_input_aborts:
  assumes "\<forall>year\<in>set (py_range 2016 2024). dataset year = []"
  shows "load_and_process_data dataset (py_range 2016 2024) = Inr NoColumns \<and>
         create_heatmap NoColumns = Inl (KeyError (u ''year'')) \<and>
         main dataset argsort communes_corse = Inl (KeyError (u ''year''))"
proof -
  have l: "load_and_process_data dataset (py_range 2016 2024) = Inr NoColumns"
    using assms by (simp add: load_and_process_data_def load_years_no_files)
  have h: "create_heatmap NoColumns = Inl (KeyError (u ''year''))"
    by (simp add: create_heatmap_def)
  show ?thesis using l h by (simp add: main_def)
qed

text \<open>
  Claim C10 at the data set without any file.
\<close>

theorem empty_input_aborts_witness:
  "load_and_process_data (\<lambda>year. []) (py_range 2016 2024) = Inr NoColumns \<and>
   main (\<lambda>year. []) argsort_front ([] :: unit boundary list) = Inl (KeyError (u ''year''))"
  using empty_input_aborts [of "\<lambda>year. []" argsort_front "[] :: unit boundary list"] by simp

section \<open>The grid of the heat map\<close>















text \<open>
  Claim C9 at a table whose samples are all of March: the grid has the single row
  of month 3, at position 0, and the twelve labels stand at the positions 0 to 11,
  so the row of March is at the label Jan.
\<close>

theorem heatmap_one_month_only:
  "create_heatmap (Frame [(2020, 3, u ''AJACCIO'', 3)]) =
     Inr \<lparr>heatmap_data = \<lparr>index = [3], columns = [2020], cells = [[Some 3]]\<rparr>,
          yticks = [(0, u ''Jan''), (1, u ''F'' @ [233] @ u ''v''), (2, u ''Mar''), (3, u ''Avr''),
                    (4, u ''Mai''), (5, u ''Juin''), (6, u ''Juil''),
                    (7, u ''Ao'' @ [251] @ u ''t''), (8, u ''Sep''), (9, u ''Oct''),
                    (10, u ''Nov''), (11, u ''D'' @ [233] @ u ''c'')]\<rparr>"
  by code_simp

section \<open>The order of the bars\<close>


lemma argsort_back_ok: "argsort_ok argsort_back xs"
  by (simp add: argsort_ok_def argsort_back_def sorted_sort_key)









text \<open>With insertion from the front the same table comes out in its group order.\<close>

lemma barplot_ties_front:
  "create_barplot argsort_front (Frame [(2020, 3, u ''AJACCIO'', 1), (2020, 3, u ''BASTIA'', 1)])
     = Inr [(u ''AJACCIO'', 1), (u ''BASTIA'', 1)]"
  by code_simp

section \<open>The join\<close>

lemma merge_row_nonempty: "merge_row df g \<noteq> []"
  by (simp add: merge_row_def split: list.splits)

lemma merge_row_boundary:
  "e \<in> set (merge_row df g) \<Longrightarrow> nom e = nom g \<and> geometry e = geometry g"
  by (auto simp: merge_row_def split: list.splits)

lemma merge_row_unmatched:
  "e \<in> set (merge_row df g) \<Longrightarrow> \<forall>r\<in>set df. fst r \<noteq> nom g \<Longrightarrow>
   count e = None \<and> nomcommuneprinc_r e = None"
proof -
  assume e: "e \<in> set (merge_row df g)" and no: "\<forall>r\<in>set df. fst r \<noteq> nom g"
  from no have "filter (\<lambda>r. fst r = nom g) df = []" by (simp add: filter_empty_conv)
  with e show ?thesis by (simp add: merge_row_def)
qed

lemma merge_row_distinct:
  assumes "distinct (map fst df)"
  shows "merge_row df g =
     [\<lparr>nom = nom g, geometry = geometry g,
       nomcommuneprinc_r = map_option (\<lambda>c. nom g) (map_of df (nom g)),
       count = map_of df (nom g)\<rparr>]"
proof (cases "filter (\<lambda>r. fst r = nom g) df")
  case Nil
  then have "\<forall>r\<in>set df. fst r \<noteq> nom g" by (simp add: filter_empty_conv)
  then have "nom g \<notin> fst ` set df" by auto
  then have "map_of df (nom g) = None" by (simp add: map_of_eq_None_iff)
  with Nil show ?thesis by (simp add: merge_row_def)
next
  case (Cons r rs)
  have "length (filter (\<lambda>r. fst r = nom g) df) \<le> 1"
    using assms by (rule distinct_key_count)
  with Cons have rs: "rs = []" by simp
  have "r \<in> set (filter (\<lambda>r. fst r = nom g) df)" using Cons by simp
  then have r: "r \<in> set df" "fst r = nom g" by auto
  then have "(nom g, snd r) \<in> set df" by (metis prod.collapse)
  then have "map_of df (nom g) = Some (snd r)" using assms by simp
  with Cons rs r show ?thesis by (simp add: merge_row_def)
qed

text \<open>
  Claim C6. For every per-commune count table and every list of boundary
  polygons, the joined table has an entry for every polygon and only entries of
  polygons, and an entry whose name is the name of no commune of the count table
  has the count 0 (and no commune). When the count table has one row per commune,
  as the table of the bar chart stage has, the joined table has exactly one entry
  per polygon, in the order of the polygons, with the commune's total or 0.
\<close>

theorem every_polygon_joined:
  "(\<forall>g\<in>set gdf. \<exists>e\<in>set (create_choropleth df gdf). nom e = nom g \<and> geometry e = geometry g) \<and>
   (\<forall>e\<in>set (create_choropleth df gdf).
      (\<exists>g\<in>set gdf. nom e = nom g \<and> geometry e = geometry g) \<and>
      ((\<forall>r\<in>set df. fst r \<noteq> nom e) \<longrightarrow> count e = 0 \<and> nomcommuneprinc_r e = None)) \<and>
   (distinct (map fst df) \<longrightarrow>
      map (\<lambda>e. (nom e, geometry e)) (create_choropleth df gdf) = map (\<lambda>g. (nom g, geometry g)) gdf \<and>
      map count (create_choropleth df gdf) =
        map (\<lambda>g. case map_of df (nom g) of None \<Rightarrow> 0 | Some c \<Rightarrow> c) gdf)"
proof (intro conjI ballI impI)
  fix g assume g: "g \<in> set gdf"
  obtain e where e: "e \<in> set (merge_row df g)"
    using merge_row_nonempty [of df g] by (cases "merge_row df g") auto
  then have "fillna 0 e \<in> set (create_choropleth df gdf)"
    using g by (auto simp: create_choropleth_def merge_left_def)
  moreover have "nom (fillna 0 e) = nom g \<and> geometry (fillna 0 e) = geometry g"
    using merge_row_boundary [OF e] by (simp add: fillna_def)
  ultimately show "\<exists>e\<in>set (create_choropleth df gdf). nom e = nom g \<and> geometry e = geometry g"
    by blast
next
  fix e assume "e \<in> set (create_choropleth df gdf)"
  then obtain g e' where g: "g \<in> set gdf" and e': "e' \<in> set (merge_row df g)" and e: "e = fillna 0 e'"
    by (auto simp: create_choropleth_def merge_left_def)
  have b: "nom e = nom g \<and> geometry e = geometry g"
    using merge_row_boundary [OF e'] e by (simp add: fillna_def)
  then show "\<exists>g\<in>set gdf. nom e = nom g \<and> geometry e = geometry g" using g by blast
  assume "\<forall>r\<in>set df. fst r \<noteq> nom e"
  then have "\<forall>r\<in>set df. fst r \<noteq> nom g" using b by simp
  from merge_row_unmatched [OF e' this] show "count e = 0" "nomcommuneprinc_r e = None"
    using e by (simp_all add: fillna_def)
next
  assume d: "distinct (map fst df)"
  have m: "create_choropleth df gdf =
     map (\<lambda>g. fillna 0 \<lparr>nom = nom g, geometry = geometry g,
       nomcommuneprinc_r = map_option (\<lambda>c. nom g) (map_of df (nom g)),
       count = map_of df (nom g)\<rparr>) gdf"
    by (induction gdf)
      (simp_all add: create_choropleth_def merge_left_def merge_row_distinct [OF d])
  show "map (\<lambda>e. (nom e, geometry e)) (create_choropleth df gdf) = map (\<lambda>g. (nom g, geometry g)) gdf"
    unfolding m by (simp add: fillna_def comp_def)
  show "map count (create_choropleth df gdf) =
        map (\<lambda>g. case map_of df (nom g) of None \<Rightarrow> 0 | Some c \<Rightarrow> c) gdf"
    unfolding m by (simp add: fillna_def comp_def)
qed

lemmas choropleth_defs = create_choropleth_def merge_left_def merge_row_def fillna_def

text \<open>
  Claim C6 at two polygons and two communes, one of them in both.
\<close>

theorem every_polygon_joined_witness:
  "create_choropleth [(u ''BASTIA'', 4), (u ''AJACCIO'', 3)]
     [\<lparr>nom = u ''AJACCIO'', geometry = (1::nat)\<rparr>, \<lparr>nom = u ''CORTE'', geometry = 2\<rparr>]
   = [\<lparr>nom = u ''AJACCIO'', geometry = 1, nomcommuneprinc_r = Some (u ''AJACCIO''), count = 3\<rparr>,
      \<lparr>nom = u ''CORTE'', geometry = 2, nomcommuneprinc_r = None, count = 0\<rparr>] \<and>
   map count (create_choropleth [(u ''BASTIA'', 4), (u ''AJACCIO'', 3)]
     [\<lparr>nom = u ''AJACCIO'', geometry = (1::nat)\<rparr>, \<lparr>nom = u ''CORTE'', geometry = 2\<rparr>]) = [3, 0]"
proof -
  have d: "distinct (map fst [(u ''BASTIA'', 4::int), (u ''AJACCIO'', 3)])"
    by (simp add: u_def)
  have e: "create_choropleth [(u ''BASTIA'', 4), (u ''AJACCIO'', 3)]
     [\<lparr>nom = u ''AJACCIO'', geometry = (1::nat)\<rparr>, \<lparr>nom = u ''CORTE'', geometry = 2\<rparr>]
   = [\<lparr>nom = u ''AJACCIO'', geometry = 1, nomcommuneprinc_r = Some (u ''AJACCIO''), count = 3\<rparr>,
      \<lparr>nom = u ''CORTE'', geometry = 2, nomcommuneprinc_r = None, count = 0\<rparr>]"
    by (simp add: choropleth_defs u_def)
  from every_polygon_joined [of "[\<lparr>nom = u ''AJACCIO'', geometry = (1::nat)\<rparr>, \<lparr>nom = u ''CORTE'', geometry = 2\<rparr>]"
      "[(u ''BASTIA'', 4), (u ''AJACCIO'', 3)]"] d
  have "map count (create_choropleth [(u ''BASTIA'', 4), (u ''AJACCIO'', 3)]
     [\<lparr>nom = u ''AJACCIO'', geometry = (1::nat)\<rparr>, \<lparr>nom = u ''CORTE'', geometry = 2\<rparr>]) =
        map (\<lambda>g. case map_of [(u ''BASTIA'', 4), (u ''AJACCIO'', 3)] (nom g) of None \<Rightarrow> 0 | Some c \<Rightarrow> c)
          [\<lparr>nom = u ''AJACCIO'', geometry = (1::nat)\<rparr>, \<lparr>nom = u ''CORTE'', geometry = 2\<rparr>]"
    by blast
  then have "map count (create_choropleth [(u ''BASTIA'', 4), (u ''AJACCIO'', 3)]
     [\<lparr>nom = u ''AJACCIO'', geometry = (1::nat)\<rparr>, \<lparr>nom = u ''CORTE'', geometry = 2\<rparr>]) = [3, 0]"
    by (simp add: u_def)
  with e show ?thesis by blast
qed

text \<open>
  Claim C1 at a sample whose commune name has an accent and lower-case letters
  and a polygon with the very same name: the sample's key is upper-cased only
  and keeps the accent, the polygon's key loses it, and the polygon is drawn with
  the count 0 although the commune has one non-conforming sample.
\<close>

theorem accented_sample_name_not_joined:
  "main
     (\<lambda>year. if year = 2020
        then [[\<lparr>dateprel = Timestamp 2020 3 2, nomcommuneprinc = Some (201 # u ''visa''),
                conclusionprel = Some non_conforme_hyphen\<rparr>]]
        else [])
     argsort_front
     [\<lparr>nom = 201 # u ''visa'', geometry = ()\<rparr>]
   = Inr \<lparr>heatmap_png =
            \<lparr>heatmap_data = \<lparr>index = [3], columns = [2020], cells = [[Some 1]]\<rparr>,
             yticks = zip [0..<12] month_labels\<rparr>,
          barplot_png = [(201 # u ''VISA'', 1)],
          index_html = [\<lparr>nom = u ''EVISA'', geometry = (), nomcommuneprinc_r = None, count = 0\<rparr>]\<rparr>"
  by code_simp

end
